theory Spec2Isabelle
  imports Main "HOL-Library.Word" "HOL-Library.Multiset"
begin

section \<open>The data model of the bot package\<close>

text \<open>
  Go's \<open>int\<close> is a machine integer; on the 64-bit platforms the package is built for it
  has 64 bits, \<open>+\<close> wraps around and \<open><\<close> compares signed values. It is modelled as a
  64-bit word, read with \<open>sint\<close> and compared with \<open><s\<close>.
\<close>

type_synonym go_int = "64 word"

definition MaxInt :: go_int where
  "MaxInt = 9223372036854775807"

text \<open>
  The payload types of an update are schema mirrors that the dispatch loop never inspects;
  they are kept abstract. A nil pointer is \<open>None\<close>.
\<close>

typedecl Message
typedecl InlineQuery
typedecl ChosenInlineResult
typedecl CallbackQuery

record Update =
  UpdateID :: go_int
  Message :: "Message option"
  EditedMessage :: "Message option"
  InlineQuery :: "InlineQuery option"
  ChosenInlineResult :: "ChosenInlineResult option"
  CallbackQuery :: "CallbackQuery option"

text \<open>
  Values of Go's \<open>error\<close> interface. \<open>errors.New(text)\<close> builds an \<open>errorString\<close>; the
  errors of package \<open>encoding/json\<close> have types of their own; every other error value
  (of \<open>net/http\<close>, of \<open>io\<close>, or of a handler's own making) is \<open>OtherError\<close>.
  A nil error is \<open>None\<close> of \<open>go_error option\<close>, and a Go result pair
  \<open>(nil, err)\<close> is \<open>Inl err\<close>, \<open>(v, nil)\<close> is \<open>Inr v\<close>.
\<close>

datatype json_error =
    SyntaxError string
  | UnmarshalTypeError string
  | InvalidUnmarshalError string
  | UnsupportedTypeError string
  | UnsupportedValueError string

datatype go_error =
    errorString string
  | JsonError json_error
  | OtherError string

record Response =
  OK :: bool
  Description :: string

record GetUpdatesResponse = Response +
  Result :: "Update list"

text \<open>
  A handler is a Go function \<open>func(*Bot, *Update) error\<close>. It is modelled as a total
  function that reads the update, acts on a state \<open>'w\<close> of its own and returns nil or an
  error. That state is everything outside the loop that the handler can touch; the
  platform, which it reaches through the bot it is given, is part of it. Handlers that
  panic, never return, or write through the two pointers they receive are outside this
  model.
\<close>

type_synonym 'w HandlerFunc = "Update \<Rightarrow> 'w \<Rightarrow> go_error option \<times> 'w"

record 'w Bot =
  token :: string
  handlers :: "'w HandlerFunc list"

definition NewBot :: "string \<Rightarrow> 'w Bot" where
  "NewBot tok = \<lparr>token = tok, handlers = []\<rparr>"

definition AddHandler :: "'w Bot \<Rightarrow> 'w HandlerFunc \<Rightarrow> 'w Bot" where
  "AddHandler e handler = e\<lparr>handlers := handlers e @ [handler]\<rparr>"

section \<open>Method bindings\<close>

text \<open>
  \<open>CallMethod\<close> and \<open>GetUpdates\<close> call into the standard library: \<open>json.Marshal\<close>,
  \<open>http.Post\<close>, \<open>ioutil.ReadAll\<close> and \<open>json.Unmarshal\<close>. These are parameters of the
  model, collected in one record; \<open>'p\<close> is the type of the request parameters and \<open>'r\<close>
  the type of an HTTP response.
\<close>

type_synonym bytes = string

record ('p, 'r) stdlib =
  json_Marshal :: "'p \<Rightarrow> json_error + bytes"
  http_Post :: "string \<Rightarrow> string \<Rightarrow> bytes \<Rightarrow> go_error + 'r"
  ioutil_ReadAll :: "'r \<Rightarrow> go_error + bytes"
  json_Unmarshal :: "bytes \<Rightarrow> json_error + GetUpdatesResponse"

definition CallMethod ::
  "('p, 'r) stdlib \<Rightarrow> 'w Bot \<Rightarrow> string \<Rightarrow> 'p \<Rightarrow> go_error + bytes" where
  "CallMethod lib e method params =
     (let url = ''https://api.telegram.org/bot'' @ token e @ ''/'' @ method in
      case json_Marshal lib params of
        Inl err \<Rightarrow> Inl (JsonError err)
      | Inr body \<Rightarrow>
          (case http_Post lib url ''application/json'' body of
             Inl err \<Rightarrow> Inl err
           | Inr res \<Rightarrow>
               (case ioutil_ReadAll lib res of
                  Inl err \<Rightarrow> Inl err
                | Inr result \<Rightarrow> Inr result)))"

definition GetUpdates ::
  "((string \<times> go_int) list, 'r) stdlib \<Rightarrow> 'w Bot \<Rightarrow> go_int \<Rightarrow> go_int \<Rightarrow> go_int
     \<Rightarrow> go_error + Update list" where
  "GetUpdates lib e offs limit timeout =
     (case CallMethod lib e ''getUpdates''
             [(''offset'', offs), (''limit'', limit), (''timeout'', timeout)] of
        Inl err \<Rightarrow> Inl err
      | Inr res \<Rightarrow>
          (case json_Unmarshal lib res of
             Inl err \<Rightarrow> Inl (JsonError err)
           | Inr updates \<Rightarrow>
               if \<not> OK updates then Inl (errorString (Description updates))
               else Inr (Result updates)))"

section \<open>The dispatch loop\<close>

text \<open>
  What the loop does to the outside is recorded as a list of events, in the order of
  execution: the lines it logs, the calls of \<open>GetUpdates\<close> with their three arguments,
  the sleeps, and each call of a handler (its position in the chain, the update, and
  what it returned).
\<close>

datatype event =
    Println_Info
  | GetUpdates_Call go_int go_int go_int
  | Println_GetUpdates_Error go_error
  | Sleep int
  | Handler_Call nat Update "go_error option"
  | Println_Handle_Error go_error

text \<open>\<open>time.Second\<close>, a duration in nanoseconds.\<close>

definition Second :: int where
  "Second = 1000000000"

text \<open>
  \<open>handle\<close> ranges over the chain; \<open>handle_from i\<close> is the loop standing at position
  \<open>i\<close> with the handlers still to run. An error logs a line and breaks out of the loop.
\<close>

fun handle_from :: "nat \<Rightarrow> 'w HandlerFunc list \<Rightarrow> Update \<Rightarrow> 'w \<Rightarrow> 'w \<times> event list" where
  "handle_from i [] update w = (w, [])"
| "handle_from i (handler # rest) update w =
     (case handler update w of
        (None, w') \<Rightarrow>
          (case handle_from (Suc i) rest update w' of
             (w'', evs) \<Rightarrow> (w'', Handler_Call i update None # evs))
      | (Some err, w') \<Rightarrow>
          (w', [Handler_Call i update (Some err), Println_Handle_Error err]))"

definition handle :: "'w Bot \<Rightarrow> Update \<Rightarrow> 'w \<Rightarrow> 'w \<times> event list" where
  "handle e update w = handle_from 0 (handlers e) update w"

text \<open>
  The state of \<open>RunLongPolling\<close>: its local variable \<open>offset\<close> and the handlers' state.
\<close>

record 'w loop_state =
  offset :: go_int
  world :: 'w

text \<open>The body of the inner loop, for one update of the batch.\<close>

definition dispatch_update ::
  "'w Bot \<Rightarrow> Update \<Rightarrow> 'w loop_state \<Rightarrow> 'w loop_state \<times> event list" where
  "dispatch_update e update s =
     (case handle e update (world s) of
        (w', evs) \<Rightarrow>
          (\<lparr>offset = (if offset s <s UpdateID update + 1 then UpdateID update + 1
                      else offset s),
            world = w'\<rparr>, evs))"

fun range_updates ::
  "'w Bot \<Rightarrow> Update list \<Rightarrow> 'w loop_state \<Rightarrow> 'w loop_state \<times> event list" where
  "range_updates e [] s = (s, [])"
| "range_updates e (update # updates) s =
     (case dispatch_update e update s of
        (s', evs) \<Rightarrow>
          (case range_updates e updates s' of
             (s'', evs') \<Rightarrow> (s'', evs @ evs')))"

text \<open>
  The loop never returns, and what \<open>GetUpdates\<close> answers is up to the network. A run is
  therefore driven by the list of the answers to its successive calls: the \<open>n\<close>-th element
  is the behaviour of \<open>e.GetUpdates\<close> at the \<open>n\<close>-th iteration, as a function of the three
  arguments. A list of length \<open>n\<close> gives the first \<open>n\<close> iterations of the loop.
\<close>

type_synonym fetcher = "go_int \<Rightarrow> go_int \<Rightarrow> go_int \<Rightarrow> go_error + Update list"

text \<open>One iteration of the outer loop.\<close>

definition iteration ::
  "'w Bot \<Rightarrow> fetcher \<Rightarrow> 'w loop_state \<Rightarrow> 'w loop_state \<times> event list" where
  "iteration e fetch s =
     (case fetch (offset s) 100 120 of
        Inl err \<Rightarrow>
          (s, [GetUpdates_Call (offset s) 100 120, Println_GetUpdates_Error err, Sleep Second])
      | Inr updates \<Rightarrow>
          (case range_updates e updates s of
             (s', evs) \<Rightarrow> (s', GetUpdates_Call (offset s) 100 120 # evs)))"

fun polling ::
  "'w Bot \<Rightarrow> fetcher list \<Rightarrow> 'w loop_state \<Rightarrow> 'w loop_state \<times> event list" where
  "polling e [] s = (s, [])"
| "polling e (fetch # fetches) s =
     (case iteration e fetch s of
        (s', evs) \<Rightarrow>
          (case polling e fetches s' of
             (s'', evs') \<Rightarrow> (s'', evs @ evs')))"

definition RunLongPolling ::
  "'w Bot \<Rightarrow> fetcher list \<Rightarrow> 'w \<Rightarrow> 'w loop_state \<times> event list" where
  "RunLongPolling e fetches w =
     (case polling e fetches \<lparr>offset = 0, world = w\<rparr> of
        (s, evs) \<Rightarrow> (s, Println_Info # evs))"

section \<open>Observations of a run\<close>





section \<open>Concrete inputs\<close>

text \<open>An update with the given identifier and no payload.\<close>

definition mkUpdate :: "go_int \<Rightarrow> Update" where
  "mkUpdate n = \<lparr>UpdateID = n, Message = None, EditedMessage = None, InlineQuery = None,
     ChosenInlineResult = None, CallbackQuery = None\<rparr>"

text \<open>A \<open>GetUpdates\<close> that answers the same whatever it is asked.\<close>

definition always :: "go_error + Update list \<Rightarrow> fetcher" where
  "always answer offs limit timeout = answer"

text \<open>Handlers over a counter of calls: one that succeeds, one that fails.\<close>

definition counterHandler :: "nat HandlerFunc" where
  "counterHandler update w = (None, Suc w)"

definition failingHandler :: "nat HandlerFunc" where
  "failingHandler update w = (Some (errorString ''rejected''), Suc w)"


text \<open>
  A standard library whose network answers every request with the same body, and whose
  decoder knows two bodies and rejects every other one.
\<close>

definition canned_Marshal :: "(string \<times> go_int) list \<Rightarrow> json_error + bytes" where
  "canned_Marshal params = Inr ''{}''"

definition canned_Post :: "bytes \<Rightarrow> string \<Rightarrow> string \<Rightarrow> bytes \<Rightarrow> go_error + bytes" where
  "canned_Post reply url content_type body = Inr reply"

definition canned_ReadAll :: "bytes \<Rightarrow> go_error + bytes" where
  "canned_ReadAll res = Inr res"

definition canned_Unmarshal :: "bytes \<Rightarrow> json_error + GetUpdatesResponse" where
  "canned_Unmarshal data =
     (if data = ''no'' then Inr \<lparr>OK = False, Description = ''Unauthorized'', Result = []\<rparr>
      else if data = ''ok'' then Inr \<lparr>OK = True, Description = [], Result = [mkUpdate 10]\<rparr>
      else Inl (SyntaxError ''unexpected end of JSON input''))"

definition canned_lib :: "bytes \<Rightarrow> ((string \<times> go_int) list, bytes) stdlib" where
  "canned_lib reply = \<lparr>json_Marshal = canned_Marshal, http_Post = canned_Post reply,
     ioutil_ReadAll = canned_ReadAll, json_Unmarshal = canned_Unmarshal\<rparr>"

section \<open>Unfolding the loops\<close>

lemma range_updates_Cons:
  "range_updates e (u # us) s =
     (fst (range_updates e us (fst (dispatch_update e u s))),
      snd (dispatch_update e u s) @ snd (range_updates e us (fst (dispatch_update e u s))))"
  by (simp add: case_prod_beta)

lemma polling_Cons:
  "polling e (f # fs) s =
     (fst (polling e fs (fst (iteration e f s))),
      snd (iteration e f s) @ snd (polling e fs (fst (iteration e f s))))"
  by (simp add: case_prod_beta)

lemma polling_append:
  "polling e (fs1 @ fs2) s =
     (fst (polling e fs2 (fst (polling e fs1 s))),
      snd (polling e fs1 s) @ snd (polling e fs2 (fst (polling e fs1 s))))"
  by (induction fs1 arbitrary: s) (simp_all add: case_prod_beta)

lemma dispatch_update_fst_offset:
  "offset (fst (dispatch_update e u s)) =
     (if offset s <s UpdateID u + 1 then UpdateID u + 1 else offset s)"
  by (simp add: dispatch_update_def case_prod_beta)


section \<open>Offset advancement per update\<close>


section \<open>Short-circuit of the handler chain\<close>

text \<open>
  C2. With the chain \<open>[h1, h2, h3]\<close>, where on update \<open>u\<close> the first handler succeeds and
  the second returns an error, dispatching \<open>u\<close> calls \<open>h1\<close> and \<open>h2\<close> once each, logs the
  error and never calls \<open>h3\<close>; the update after it is dispatched from \<open>h1\<close> again.
\<close>

theorem handler_short_circuit:
  assumes "handlers e = [h1, h2, h3]"
    and "h1 u w = (None, w1)"
    and "h2 u w1 = (Some err, w2)"
  shows "handle e u w =
           (w2, [Handler_Call 0 u None, Handler_Call 1 u (Some err), Println_Handle_Error err])
       \<and> snd (range_updates e [u, u'] \<lparr>offset = offs, world = w\<rparr>) =
           [Handler_Call 0 u None, Handler_Call 1 u (Some err), Println_Handle_Error err]
             @ snd (handle e u' w2)
       \<and> hd (snd (handle e u' w2)) = Handler_Call 0 u' (fst (h1 u' w2))"
  using assms
  by (simp add: handle_def dispatch_update_def split: prod.splits option.splits)

theorem handler_short_circuit_witness:
  "snd (range_updates \<lparr>token = ''t'', handlers = [counterHandler, failingHandler, counterHandler]\<rparr>
          [mkUpdate 1, mkUpdate 2] \<lparr>offset = 0, world = 0\<rparr>) =
     [Handler_Call 0 (mkUpdate 1) None,
      Handler_Call 1 (mkUpdate 1) (Some (errorString ''rejected'')),
      Println_Handle_Error (errorString ''rejected''),
      Handler_Call 0 (mkUpdate 2) None,
      Handler_Call 1 (mkUpdate 2) (Some (errorString ''rejected'')),
      Println_Handle_Error (errorString ''rejected'')]"
  using handler_short_circuit [of
      "\<lparr>token = ''t'', handlers = [counterHandler, failingHandler, counterHandler]\<rparr>"
      counterHandler failingHandler counterHandler "mkUpdate 1" 0 1 "errorString ''rejected''" 2
      "mkUpdate 2" 0]
  by (simp add: counterHandler_def failingHandler_def handle_def)

section \<open>Empty batches\<close>

text \<open>
  C5. When the fetch succeeds with an empty list, the iteration calls no handler, leaves
  both \<open>offset\<close> and the handlers' state as they were and does not sleep: its only event is
  the call of \<open>GetUpdates\<close>, and the loop goes on to the next fetch at once.
\<close>

theorem empty_batch_no_op:
  assumes "fetch (offset s) 100 120 = Inr []"
  shows "iteration e fetch s = (s, [GetUpdates_Call (offset s) 100 120])
       \<and> polling e (fetch # fetches) s =
           (fst (polling e fetches s),
            GetUpdates_Call (offset s) 100 120 # snd (polling e fetches s))"
  using assms by (simp add: iteration_def case_prod_beta)

theorem empty_batch_no_op_witness:
  "iteration \<lparr>token = ''t'', handlers = [counterHandler]\<rparr> (always (Inr []))
     \<lparr>offset = 11, world = 1\<rparr> =
   (\<lparr>offset = 11, world = 1\<rparr>, [GetUpdates_Call 11 100 120])"
  using empty_batch_no_op [of "always (Inr [])" "\<lparr>offset = 11, world = 1\<rparr>"
      "\<lparr>token = ''t'', handlers = [counterHandler]\<rparr>" "[]"]
  by (simp add: always_def)

section \<open>The three-batch scenario\<close>

text \<open>
  C7. With the chain \<open>[counterHandler]\<close>, registered on a new bot, and the three
  batches \<open>[10]\<close>, \<open>[]\<close> and \<open>[11, 12]\<close>, the handler is called three times in all
  (its counter ends at 3, and the events show the three calls), the offset ends at 13,
  and the iteration of the empty batch calls no handler.
\<close>

theorem three_batches_scenario:
  "RunLongPolling (AddHandler (NewBot ''t'') counterHandler)
     [always (Inr [mkUpdate 10]), always (Inr []), always (Inr [mkUpdate 11, mkUpdate 12])] 0 =
   (\<lparr>offset = 13, world = 3\<rparr>,
    [Println_Info,
     GetUpdates_Call 0 100 120, Handler_Call 0 (mkUpdate 10) None,
     GetUpdates_Call 11 100 120,
     GetUpdates_Call 11 100 120, Handler_Call 0 (mkUpdate 11) None,
     Handler_Call 0 (mkUpdate 12) None])"
  by (simp add: NewBot_def AddHandler_def RunLongPolling_def iteration_def
      dispatch_update_def handle_def counterHandler_def mkUpdate_def always_def
      word_sless_alt)

section \<open>Offsets across a batch and across passes\<close>

text \<open>Adding one to an \<open>int\<close> is adding one to its value, except at the largest \<open>int\<close>.\<close>

lemma sint_succ:
  fixes x :: go_int
  assumes "x \<noteq> MaxInt"
  shows "sint (x + 1) = sint x + 1"
proof -
  have "sint x \<noteq> 9223372036854775807"
  proof
    assume "sint x = 9223372036854775807"
    then have "word_of_int (sint x) = (word_of_int 9223372036854775807 :: go_int)"
      by simp
    then show False
      using assms by (simp add: MaxInt_def)
  qed
  moreover have "sint x < 2 ^ 63" and "- (2 ^ 63) \<le> sint x"
    using sint_lt [of x] sint_ge [of x] by simp_all
  ultimately have bounds: "- (2 ^ 63) \<le> sint x + 1" "sint x + 1 < 2 ^ 63"
    by simp_all
  have "sint (x + 1) = signed_take_bit 63 (sint x + 1)"
    by (simp add: sint_word_ariths)
  also have "\<dots> = sint x + 1"
    using bounds by (simp add: signed_take_bit_int_eq_self)
  finally show ?thesis .
qed

lemma dispatch_update_offset:
  "sint (offset (fst (dispatch_update e u s))) = max (sint (offset s)) (sint (UpdateID u + 1))"
  by (simp add: dispatch_update_fst_offset word_sless_alt max_def)

text \<open>
  After a batch the offset is the largest of its old value and of every \<open>UpdateID + 1\<close>
  of the batch: a function of the set of the batch's identifiers.
\<close>

lemma range_updates_offset:
  "sint (offset (fst (range_updates e us s))) =
     Max (insert (sint (offset s)) ((\<lambda>u. sint (UpdateID u + 1)) ` set us))"
proof (induction us arbitrary: s)
  case Nil
  then show ?case by simp
next
  case (Cons u us)
  let ?s' = "fst (dispatch_update e u s)"
  have "sint (offset (fst (range_updates e (u # us) s))) =
          Max (insert (sint (offset ?s')) ((\<lambda>u. sint (UpdateID u + 1)) ` set us))"
    by (simp only: range_updates_Cons fst_conv Cons.IH)
  also have "\<dots> = Max (insert (sint (offset s)) ((\<lambda>u. sint (UpdateID u + 1)) ` set (u # us)))"
  proof (cases "us = []")
    case True
    then show ?thesis
      by (simp add: dispatch_update_offset max.commute)
  next
    case False
    then show ?thesis
      by (simp add: dispatch_update_offset max.assoc max.commute max.left_commute)
  qed
  finally show ?case .
qed

lemma range_updates_offset_max:
  assumes "us \<noteq> []" and "\<forall>u\<in>set us. UpdateID u \<noteq> MaxInt"
  shows "sint (offset (fst (range_updates e us s))) =
           max (sint (offset s)) (Max ((\<lambda>u. sint (UpdateID u)) ` set us) + 1)"
proof -
  have "(\<lambda>u. sint (UpdateID u + 1)) ` set us = (\<lambda>x. x + 1) ` (\<lambda>u. sint (UpdateID u)) ` set us"
    using assms(2) by (auto simp: sint_succ image_iff)
  moreover have "Max ((\<lambda>x. x + 1) ` (\<lambda>u. sint (UpdateID u)) ` set us) =
                   Max ((\<lambda>u. sint (UpdateID u)) ` set us) + 1"
    using assms(1) by (intro mono_Max_commute [symmetric] monoI) simp_all
  ultimately show ?thesis
    using assms(1) by (simp add: range_updates_offset)
qed

lemma range_updates_mono: "sint (offset s) \<le> sint (offset (fst (range_updates e us s)))"
  by (simp add: range_updates_offset)

lemma iteration_mono: "sint (offset s) \<le> sint (offset (fst (iteration e f s)))"
  by (simp add: iteration_def case_prod_beta range_updates_mono split: sum.splits)

lemma polling_mono: "sint (offset s) \<le> sint (offset (fst (polling e fs s)))"
proof (induction fs arbitrary: s)
  case Nil
  then show ?case by simp
next
  case (Cons f fs)
  have "sint (offset s) \<le> sint (offset (fst (iteration e f s)))"
    by (rule iteration_mono)
  also have "\<dots> \<le> sint (offset (fst (polling e fs (fst (iteration e f s)))))"
    by (rule Cons.IH)
  finally show ?case
    by (simp only: polling_Cons fst_conv)
qed

text \<open>
  C3, as amended. Over any sequence of fetch results the offset never decreases from one
  pass to the passes after it; and a pass that fetches a non-empty batch, none of whose
  identifiers is the largest \<open>int\<close>, ends with the offset at the larger of its old value
  and \<open>M + 1\<close>, where \<open>M\<close> is the largest identifier of the batch. So it ends at \<open>M + 1\<close>
  exactly when the offset before the pass was at most \<open>M + 1\<close>.
\<close>

theorem offset_monotone_and_batch_maximum:
  "sint (offset (fst (polling e fetches s))) \<le> sint (offset (fst (polling e (fetches @ later) s)))
   \<and> (fetch (offset s) 100 120 = Inr us \<longrightarrow> us \<noteq> [] \<longrightarrow>
        (\<forall>u\<in>set us. UpdateID u \<noteq> MaxInt) \<longrightarrow>
        sint (offset (fst (iteration e fetch s))) =
          max (sint (offset s)) (Max ((\<lambda>u. sint (UpdateID u)) ` set us) + 1))"
  by (simp add: polling_append polling_mono iteration_def case_prod_beta
      range_updates_offset_max)

theorem offset_monotone_and_batch_maximum_witness:
  "sint (offset (fst (iteration \<lparr>token = ''t'', handlers = [counterHandler]\<rparr>
      (always (Inr [mkUpdate 11, mkUpdate 12])) \<lparr>offset = 11, world = 1\<rparr>))) = 13"
  using offset_monotone_and_batch_maximum [of
      "\<lparr>token = ''t'', handlers = [counterHandler]\<rparr>" "[]" "\<lparr>offset = 11, world = 1\<rparr>" "[]"
      "always (Inr [mkUpdate 11, mkUpdate 12])" "[mkUpdate 11, mkUpdate 12]"]
  by (simp add: always_def mkUpdate_def MaxInt_def)

text \<open>
  C3 as the specification states it fails in two places. When a batch brings only
  identifiers below the offset, the guard \<open>offset < update.UpdateID + 1\<close> keeps the offset
  where it was: after the batches \<open>[10]\<close> and \<open>[5]\<close> it is 11, not \<open>5 + 1\<close>. And when
  the largest identifier of a batch is the largest \<open>int\<close>, its sum with one wraps to the
  smallest \<open>int\<close> and is not taken: after the batch of the largest \<open>int\<close> and 5 the
  offset is 6, which is one plus the largest identifier neither as a number nor as Go
  computes it.
\<close>

theorem offset_after_batch_counterexample:
  "sint (offset (fst (RunLongPolling \<lparr>token = ''t'', handlers = [counterHandler]\<rparr>
      [always (Inr [mkUpdate 10]), always (Inr [mkUpdate 5])] 0))) \<noteq> 5 + 1
   \<and> sint (offset (fst (RunLongPolling \<lparr>token = ''t'', handlers = [counterHandler]\<rparr>
      [always (Inr [mkUpdate MaxInt, mkUpdate 5])] 0))) \<noteq> sint MaxInt + 1
   \<and> sint (offset (fst (RunLongPolling \<lparr>token = ''t'', handlers = [counterHandler]\<rparr>
      [always (Inr [mkUpdate MaxInt, mkUpdate 5])] 0))) \<noteq> sint (MaxInt + 1)"
  by (simp add: RunLongPolling_def iteration_def dispatch_update_def handle_def
      counterHandler_def mkUpdate_def always_def MaxInt_def word_sless_alt)

section \<open>Order of the updates in a batch\<close>

text \<open>
  C10, as amended. The offset after a batch is the same for every permutation of the
  batch; and for a non-empty batch, none of whose identifiers is the largest \<open>int\<close>, it
  is the larger of the starting offset and one plus the largest identifier of the batch.
\<close>

theorem offset_invariant_under_permutation:
  assumes "mset us' = mset us"
  shows "offset (fst (range_updates e us' s)) = offset (fst (range_updates e us s))
       \<and> (us \<noteq> [] \<longrightarrow> (\<forall>u\<in>set us. UpdateID u \<noteq> MaxInt) \<longrightarrow>
            sint (offset (fst (range_updates e us' s))) =
              max (sint (offset s)) (1 + Max ((\<lambda>u. sint (UpdateID u)) ` set us)))"
proof -
  have "set us' = set us"
    using assms by (rule mset_eq_setD)
  then have "sint (offset (fst (range_updates e us' s))) =
             sint (offset (fst (range_updates e us s)))"
    by (simp add: range_updates_offset)
  then have "offset (fst (range_updates e us' s)) = offset (fst (range_updates e us s))"
    by (simp add: signed_word_eqI)
  then show ?thesis
    by (simp add: range_updates_offset_max add.commute)
qed

theorem offset_invariant_under_permutation_witness:
  "sint (offset (fst (range_updates \<lparr>token = ''t'', handlers = [counterHandler]\<rparr>
      [mkUpdate 7, mkUpdate 3] \<lparr>offset = 5, world = 0\<rparr>))) = 8
   \<and> offset (fst (range_updates \<lparr>token = ''t'', handlers = [counterHandler]\<rparr>
      [mkUpdate 7, mkUpdate 3] \<lparr>offset = 5, world = 0\<rparr>)) =
     offset (fst (range_updates \<lparr>token = ''t'', handlers = [counterHandler]\<rparr>
      [mkUpdate 3, mkUpdate 7] \<lparr>offset = 5, world = 0\<rparr>))"
  using offset_invariant_under_permutation [of "[mkUpdate 7, mkUpdate 3]"
      "[mkUpdate 3, mkUpdate 7]" "\<lparr>token = ''t'', handlers = [counterHandler]\<rparr>"
      "\<lparr>offset = 5, world = 0\<rparr>"]
  by (auto simp add: mkUpdate_def MaxInt_def simp del: range_updates.simps)

text \<open>
  C10 as stated fails where \<open>UpdateID + 1\<close> overflows. From offset 0, the batch of the
  largest \<open>int\<close> and 5 ends at 6: the sum of the first update wraps to the smallest
  \<open>int\<close> and is not taken. One plus the largest identifier is not 6, neither as a number
  nor as Go computes it.
\<close>

theorem offset_at_largest_int_counterexample:
  "sint (offset (fst (range_updates \<lparr>token = ''t'', handlers = [counterHandler]\<rparr>
      [mkUpdate MaxInt, mkUpdate 5] \<lparr>offset = 0, world = 0\<rparr>))) = 6
   \<and> max (sint (0 :: go_int)) (1 + max (sint MaxInt) (sint (5 :: go_int))) \<noteq> 6
   \<and> max (sint (0 :: go_int)) (sint (1 + MaxInt)) \<noteq> 6"
  by (simp add: dispatch_update_def handle_def counterHandler_def mkUpdate_def MaxInt_def
      word_sless_alt)

section \<open>Fetch errors\<close>

lemma polling_failures:
  assumes "\<forall>g\<in>set fails. isl (g (offset s) 100 120)"
  shows "polling e (fails @ fs) s =
    (fst (polling e fs s),
     concat (map (\<lambda>g. [GetUpdates_Call (offset s) 100 120,
                        Println_GetUpdates_Error (projl (g (offset s) 100 120)),
                        Sleep Second]) fails)
       @ snd (polling e fs s))"
  using assms
proof (induction fails)
  case Nil
  then show ?case by simp
next
  case (Cons g fails)
  then obtain err where "g (offset s) 100 120 = Inl err"
    by (cases "g (offset s) 100 120") simp_all
  then have "iteration e g s =
      (s, [GetUpdates_Call (offset s) 100 120,
           Println_GetUpdates_Error (projl (g (offset s) 100 120)), Sleep Second])"
    by (simp add: iteration_def)
  with Cons show ?case by simp
qed

text \<open>
  C4. An iteration whose fetch fails logs the error, sleeps for \<open>time.Second\<close> and leaves
  the offset and the handlers' state as they were. However many fetches fail in a row,
  the loop goes on: the first fetch that succeeds is asked for the same offset, its batch
  is dispatched once and in full from the unchanged state, and the loop continues with the
  fetches after it.
\<close>

theorem fetch_errors_are_retried:
  assumes "\<forall>g\<in>set fails. isl (g (offset s) 100 120)"
    and "fetch (offset s) 100 120 = Inr us"
  shows "polling e (fails @ fetch # later) s =
    (fst (polling e later (fst (range_updates e us s))),
     concat (map (\<lambda>g. [GetUpdates_Call (offset s) 100 120,
                        Println_GetUpdates_Error (projl (g (offset s) 100 120)),
                        Sleep Second]) fails)
       @ GetUpdates_Call (offset s) 100 120 # snd (range_updates e us s)
       @ snd (polling e later (fst (range_updates e us s))))
    \<and> fst (polling e fails s) = s
    \<and> (failing (offset s) 100 120 = Inl err \<longrightarrow>
         iteration e failing s =
           (s, [GetUpdates_Call (offset s) 100 120, Println_GetUpdates_Error err, Sleep Second]))
    \<and> Second = 1000000000"
  using assms(2) polling_failures [OF assms(1), of e "[]"]
  by (simp add: polling_failures [OF assms(1)] iteration_def case_prod_beta Second_def)

theorem fetch_errors_are_retried_witness:
  "polling \<lparr>token = ''t'', handlers = [counterHandler]\<rparr>
     [always (Inl (OtherError ''timeout'')), always (Inl (errorString ''Bad Gateway'')),
      always (Inl (JsonError (SyntaxError ''eof''))), always (Inr [mkUpdate 10, mkUpdate 11])]
     \<lparr>offset = 10, world = 0\<rparr> =
   (\<lparr>offset = 12, world = 2\<rparr>,
    [GetUpdates_Call 10 100 120, Println_GetUpdates_Error (OtherError ''timeout''),
     Sleep 1000000000,
     GetUpdates_Call 10 100 120, Println_GetUpdates_Error (errorString ''Bad Gateway''),
     Sleep 1000000000,
     GetUpdates_Call 10 100 120, Println_GetUpdates_Error (JsonError (SyntaxError ''eof'')),
     Sleep 1000000000,
     GetUpdates_Call 10 100 120, Handler_Call 0 (mkUpdate 10) None,
     Handler_Call 0 (mkUpdate 11) None])"
  using fetch_errors_are_retried [of
      "[always (Inl (OtherError ''timeout'')), always (Inl (errorString ''Bad Gateway'')),
        always (Inl (JsonError (SyntaxError ''eof'')))]"
      "\<lparr>offset = 10, world = 0\<rparr>"
      "always (Inr [mkUpdate 10, mkUpdate 11])" "[mkUpdate 10, mkUpdate 11]"
      "\<lparr>token = ''t'', handlers = [counterHandler]\<rparr>" "[]"
      "always (Inl (OtherError ''timeout''))" "OtherError ''timeout''"]
  by (simp add: always_def Second_def dispatch_update_def handle_def
      counterHandler_def mkUpdate_def word_sless_alt iteration_def)

section \<open>The arguments of the fetches\<close>







section \<open>The envelope of getUpdates\<close>

text \<open>
  C6. When the call of the method returned a body: if the body decodes to an envelope with
  \<open>ok\<close> false, \<open>GetUpdates\<close> fails with \<open>errors.New\<close> of the envelope's description,
  unchanged, and returns no updates; if it decodes to an envelope with \<open>ok\<close> true,
  \<open>GetUpdates\<close> returns the envelope's result; if the decoder rejects the body,
  \<open>GetUpdates\<close> fails with the decoder's error, which is no \<open>errors.New\<close> value whatever
  the description.
\<close>

theorem GetUpdates_envelope:
  assumes "CallMethod lib e ''getUpdates''
             [(''offset'', offs), (''limit'', limit), (''timeout'', timeout)] = Inr res"
  shows "(json_Unmarshal lib res = Inr r \<and> \<not> OK r \<longrightarrow>
            GetUpdates lib e offs limit timeout = Inl (errorString (Description r)))
       \<and> (json_Unmarshal lib res = Inr r \<and> OK r \<longrightarrow>
            GetUpdates lib e offs limit timeout = Inr (Result r))
       \<and> (json_Unmarshal lib res = Inl err \<longrightarrow>
            GetUpdates lib e offs limit timeout = Inl (JsonError err)
            \<and> (\<forall>description. JsonError err \<noteq> errorString description))"
  using assms by (simp add: GetUpdates_def)

theorem GetUpdates_envelope_witness:
  "GetUpdates (canned_lib ''no'') \<lparr>token = ''t'', handlers = [counterHandler]\<rparr> 0 100 120 =
     Inl (errorString ''Unauthorized'')
   \<and> GetUpdates (canned_lib ''ok'') \<lparr>token = ''t'', handlers = [counterHandler]\<rparr> 0 100 120 =
     Inr [mkUpdate 10]
   \<and> GetUpdates (canned_lib ''{'') \<lparr>token = ''t'', handlers = [counterHandler]\<rparr> 0 100 120 =
     Inl (JsonError (SyntaxError ''unexpected end of JSON input''))"
  using
    GetUpdates_envelope [of "canned_lib ''no''"
      "\<lparr>token = ''t'', handlers = [counterHandler]\<rparr>" 0 100 120 "''no''"
      "\<lparr>OK = False, Description = ''Unauthorized'', Result = []\<rparr>"]
    GetUpdates_envelope [of "canned_lib ''ok''"
      "\<lparr>token = ''t'', handlers = [counterHandler]\<rparr>" 0 100 120 "''ok''"
      "\<lparr>OK = True, Description = [], Result = [mkUpdate 10]\<rparr>"]
    GetUpdates_envelope [of "canned_lib ''{''"
      "\<lparr>token = ''t'', handlers = [counterHandler]\<rparr>" 0 100 120 "''{''"
      _ "SyntaxError ''unexpected end of JSON input''"]
  by (simp add: CallMethod_def canned_lib_def canned_Marshal_def canned_Post_def
      canned_ReadAll_def canned_Unmarshal_def)

section \<open>Determinism of the dispatch\<close>












end
